theory Spec2Isabelle
  imports Main
begin

section \<open>The parser's JSON tree (pkg/vet/astjson.go)\<close>

text \<open>
  The validator walks the value that \<^verbatim>\<open>encoding/json\<close> builds from the parser's output:
  a \<^verbatim>\<open>map[string]any\<close> whose values are nil (JSON null), bool, float64, string,
  \<^verbatim>\<open>[]any\<close> or again \<^verbatim>\<open>map[string]any\<close>.

  \<^item> A JSON number is only ever read by \<^verbatim>\<open>getNumberField\<close>, which converts it with
    \<^verbatim>\<open>int32(num)\<close>; \<open>JNumber i\<close> stands for a number whose conversion is \<open>i\<close>.
  \<^item> An object is the list of its bindings. Go fixes no iteration order for a map, and
    \<^verbatim>\<open>nodeType\<close> returns the binding its \<^verbatim>\<open>range\<close> loop yields first: here the head of
    the list. The wrapper nodes of the parser have one key, so for them the order plays
    no role; a statement about all lists covers every order Go may choose.
  \<^item> \<^verbatim>\<open>jsonNode\<close> is a map that may be nil: an \<open>option\<close>, with \<open>None\<close> for nil.
\<close>

datatype json =
    JNull
  | JBool bool
  | JNumber int
  | JString string
  | JArray "json list"
  | JObject "(string \<times> json) list"

type_synonym jsonNode = "(string \<times> json) list option"

text \<open>\<^verbatim>\<open>v, ok := obj[key]\<close>: reading a nil map finds nothing.\<close>

definition lookup :: "jsonNode \<Rightarrow> string \<Rightarrow> json option" where
  "lookup obj key = (case obj of None \<Rightarrow> None | Some m \<Rightarrow> map_of m key)"

text \<open>\<^verbatim>\<open>obj[key]\<close> as a value: the zero value of \<^verbatim>\<open>any\<close> (nil) when the key is absent.\<close>

definition idx :: "jsonNode \<Rightarrow> string \<Rightarrow> json" where
  "idx obj key = (case lookup obj key of None \<Rightarrow> JNull | Some v \<Rightarrow> v)"

definition getStringField :: "jsonNode \<Rightarrow> string \<Rightarrow> string" where
  "getStringField obj key = (case lookup obj key of Some (JString s) \<Rightarrow> s | _ \<Rightarrow> '''')"

definition getNumberField :: "jsonNode \<Rightarrow> string \<Rightarrow> int" where
  "getNumberField obj key =
     (case obj of None \<Rightarrow> 0
      | Some m \<Rightarrow> (case lookup obj key of Some (JNumber num) \<Rightarrow> num | _ \<Rightarrow> 0))"

definition getBoolField :: "jsonNode \<Rightarrow> string \<Rightarrow> bool" where
  "getBoolField obj key =
     (case obj of None \<Rightarrow> False
      | Some m \<Rightarrow> (case lookup obj key of Some (JBool b) \<Rightarrow> b | _ \<Rightarrow> False))"

definition asNode :: "json \<Rightarrow> jsonNode" where
  "asNode v = (case v of JObject m \<Rightarrow> Some m | _ \<Rightarrow> None)"

text \<open>A \<^verbatim>\<open>[]any\<close> that may be nil; \<open>elems\<close> is what \<^verbatim>\<open>range\<close> and \<^verbatim>\<open>len\<close> see of it.\<close>

definition asList :: "json \<Rightarrow> json list option" where
  "asList v = (case v of JArray a \<Rightarrow> Some a | _ \<Rightarrow> None)"

definition elems :: "json list option \<Rightarrow> json list" where
  "elems l = (case l of None \<Rightarrow> [] | Some a \<Rightarrow> a)"

fun jNode :: "jsonNode \<Rightarrow> string list \<Rightarrow> jsonNode" where
  "jNode m [] = None"
| "jNode m (k # keys) = (case asNode (idx m k) of Some n \<Rightarrow> Some n | None \<Rightarrow> jNode m keys)"

fun jList :: "jsonNode \<Rightarrow> string list \<Rightarrow> json list option" where
  "jList m [] = None"
| "jList m (k # keys) = (case asList (idx m k) of Some l \<Rightarrow> Some l | None \<Rightarrow> jList m keys)"

definition getRelationRangeVar :: "jsonNode \<Rightarrow> jsonNode" where
  "getRelationRangeVar m =
     (case asNode (idx m ''RangeVar'') of Some rv \<Rightarrow> Some rv | None \<Rightarrow> m)"

definition nodeType :: "jsonNode \<Rightarrow> string \<times> jsonNode" where
  "nodeType n = (case n of Some ((k, v) # rest) \<Rightarrow> (k, asNode v) | _ \<Rightarrow> ('''', None))"

section \<open>Schema, context and results (pkg/vet/vet.go)\<close>

text \<open>
  Modelled from the spec: the declarations of \<^verbatim>\<open>schema.Column\<close> and \<^verbatim>\<open>schema.Table\<close>
  (pkg/schema is not among the sources). Section 3 of the specification gives a column a
  name and an optional type, and a table a name, a mapping from column name to column
  and a read-only flag; the validator builds them as
  \<^verbatim>\<open>schema.Table{Name: .., Columns: map[string]schema.Column{}, ReadOnly: true}\<close>.
\<close>

record Column =
  col_Name :: string
  col_Type :: string

record Table =
  tbl_Name :: string
  tbl_Columns :: "string \<rightharpoonup> Column"
  tbl_ReadOnly :: bool

text \<open>
  A Go map is a reference: \<^verbatim>\<open>VetContext\<close> is passed by value, but the copies share the
  two table maps, and \<^verbatim>\<open>ctx.InnerSchema.Tables[name] = t\<close> is seen by every holder of the
  context. The maps therefore live in a store, and a context holds their addresses
  (\<open>None\<close> for a nil map).
\<close>

type_synonym addr = nat
type_synonym tables = "string \<rightharpoonup> Table"
type_synonym heap = "addr \<Rightarrow> tables"

record TableUsed =
  tu_Name :: string
  tu_Alias :: string

record ColumnUsed =
  cu_Column :: string
  cu_Table :: string
  cu_Location :: int

record QueryParam =
  Number :: int

record VetContext =
  Schema_Tables :: "addr option"
  InnerSchema_Tables :: "addr option"
  UsedTables :: "TableUsed list"

record ParseResult =
  Columns :: "ColumnUsed list"
  Tables :: "TableUsed list"
  Params :: "QueryParam list"
  PostponedNodes :: "json list option"

definition newParseResult :: ParseResult where
  "newParseResult = \<lparr>Columns = [], Tables = [], Params = [], PostponedNodes = None\<rparr>"


text \<open>One constructor for each message the two files format.\<close>

datatype error =
    EmptyStatement
  | MoreThanOneStatement
  | UnsupportedStatement string
  | InvalidTableName string
  | ReadOnlyTable string
  | TableNotAvailable string
  | ColumnNotDefined string string
  | ColumnNotDefinedAny string
  | ColumnCountMismatch nat nat
  | NoColumnsInDeleteWhere
  | NoWhereForDelete
  | MissingSelectStmt
  | InvalidWhereClause error
  | InvalidValueList error
  | InvalidSelectInValueList error

text \<open>
  What a call comes to: a panic of the Go runtime, the end of the recursion budget of
  the model (see below), an error value, or a result.
\<close>

datatype 'a res = Panic | OutOfFuel | Err error | Ok 'a

subsection \<open>The parameter collector\<close>

fun AddQueryParam :: "QueryParam list \<Rightarrow> QueryParam \<Rightarrow> QueryParam list" where
  "AddQueryParam [] param = [param]"
| "AddQueryParam (p # params) param =
     (if Number p = Number param then p # params
      else if Number p > Number param then param # p # params
      else p # AddQueryParam params param)"

definition AddQueryParams :: "QueryParam list \<Rightarrow> QueryParam list \<Rightarrow> QueryParam list" where
  "AddQueryParams target params = foldl AddQueryParam target params"

subsection \<open>Table and column checks\<close>

definition validateTable :: "VetContext \<Rightarrow> string \<Rightarrow> bool \<Rightarrow> heap \<Rightarrow> unit res" where
  "validateTable ctx tname notReadOnly h =
     (case Schema_Tables ctx of
        None \<Rightarrow> Ok ()
      | Some a \<Rightarrow>
          (case h a tname of
             None \<Rightarrow> Err (InvalidTableName tname)
           | Some t \<Rightarrow>
               if notReadOnly \<and> tbl_ReadOnly t then Err (ReadOnlyTable tname) else Ok ()))"

text \<open>
  The local \<^verbatim>\<open>usedTables\<close> map of \<^verbatim>\<open>validateTableColumns\<close>: a list of bindings with
  distinct keys, so that its length is \<^verbatim>\<open>len(usedTables)\<close>.
\<close>

fun setKey :: "string \<Rightarrow> Table \<Rightarrow> (string \<times> Table) list \<Rightarrow> (string \<times> Table) list" where
  "setKey k v [] = [(k, v)]"
| "setKey k v ((k', v') # m) = (if k' = k then (k, v) # m else (k', v') # setKey k v m)"

fun collectUsedTables ::
  "tables \<Rightarrow> tables \<Rightarrow> TableUsed list \<Rightarrow> (string \<times> Table) list \<Rightarrow> (string \<times> Table) list res"
where
  "collectUsedTables inner outer [] usedTables = Ok usedTables"
| "collectUsedTables inner outer (tu # tbls) usedTables =
     (case (case inner (tu_Name tu) of Some t \<Rightarrow> Some t | None \<Rightarrow> outer (tu_Name tu)) of
        None \<Rightarrow> Err (InvalidTableName (tu_Name tu))
      | Some t \<Rightarrow>
          collectUsedTables inner outer tbls
            (if tu_Alias tu \<noteq> '''' then setKey (tu_Alias tu) t (setKey (tu_Name tu) t usedTables)
             else setKey (tu_Name tu) t usedTables))"

fun checkColumns :: "TableUsed list \<Rightarrow> (string \<times> Table) list \<Rightarrow> ColumnUsed list \<Rightarrow> unit res" where
  "checkColumns tbls usedTables [] = Ok ()"
| "checkColumns tbls usedTables (col # cols) =
     (if cu_Table col \<noteq> '''' then
        (case map_of usedTables (cu_Table col) of
           None \<Rightarrow> Err (TableNotAvailable (cu_Table col))
         | Some t \<Rightarrow>
             (case tbl_Columns t (cu_Column col) of
                None \<Rightarrow> Err (ColumnNotDefined (cu_Column col) (cu_Table col))
              | Some c \<Rightarrow> checkColumns tbls usedTables cols))
      else if list_ex (\<lambda>(k, t). tbl_Columns t (cu_Column col) \<noteq> None) usedTables then
        checkColumns tbls usedTables cols
      else if length usedTables = 1 then
        (case tbls of
           [] \<Rightarrow> Panic
         | t0 # rest \<Rightarrow> Err (ColumnNotDefined (cu_Column col) (tu_Name t0)))
      else Err (ColumnNotDefinedAny (cu_Column col)))"

definition validateTableColumns ::
  "VetContext \<Rightarrow> TableUsed list \<Rightarrow> ColumnUsed list \<Rightarrow> heap \<Rightarrow> unit res"
where
  "validateTableColumns ctx tbls cols h =
     (case (Schema_Tables ctx, InnerSchema_Tables ctx) of
        (Some s, Some i) \<Rightarrow>
          (case collectUsedTables (h i) (h s) tbls [] of
             Ok usedTables \<Rightarrow> checkColumns tbls usedTables cols
           | Err e \<Rightarrow> Err e
           | Panic \<Rightarrow> Panic
           | OutOfFuel \<Rightarrow> OutOfFuel)
      | _ \<Rightarrow> Ok ())"


subsection \<open>Reading columns and tables off nodes\<close>

definition jsonRangeVarToTableUsed :: "jsonNode \<Rightarrow> TableUsed" where
  "jsonRangeVarToTableUsed r =
     \<lparr>tu_Name = getStringField r ''relname'',
      tu_Alias = (case asNode (idx r ''alias'') of
                    Some alias \<Rightarrow> getStringField (Some alias) ''aliasname''
                  | None \<Rightarrow> '''')\<rparr>"

definition jsonColumnRefToColumnUsed :: "jsonNode \<Rightarrow> ColumnUsed option" where
  "jsonColumnRefToColumnUsed colRef =
     (let loc = getNumberField colRef ''location'';
          named = (\<lambda>tbl colField.
            (case asNode (idx colField ''String'') of
               Some s \<Rightarrow> Some \<lparr>cu_Column = getStringField (Some s) ''sval'',
                               cu_Table = tbl, cu_Location = loc\<rparr>
             | None \<Rightarrow> None))
      in case elems (asList (idx colRef ''fields'')) of
           [] \<Rightarrow> None
         | [f0] \<Rightarrow> named '''' (asNode f0)
         | f0 # f1 # rest \<Rightarrow>
             named (if idx (asNode f0) ''String'' \<noteq> JNull
                    then getStringField (asNode (idx (asNode f0) ''String'')) ''sval''
                    else '''')
                   (asNode f1))"

lemma size_map_of: "map_of m k = Some v \<Longrightarrow> Suc (size v) < size (JObject m)"
  by (induction m) (auto split: if_splits)

lemma size_map_of2:
  "map_of m k = Some v \<Longrightarrow> map_of m k' = Some v' \<Longrightarrow> k \<noteq> k' \<Longrightarrow>
   size v + size v' + 2 < size (JObject m)"
proof (induction m)
  case Nil then show ?case by simp
next
  case (Cons a m)
  then show ?case
    using size_map_of[of m k v] size_map_of[of m k' v']
    by (cases a) (auto split: if_splits)
qed

function jsonGetTablesFromSelectStmt :: "json list \<Rightarrow> TableUsed list" where
  "jsonGetTablesFromSelectStmt [] = []"
| "jsonGetTablesFromSelectStmt (it # rest) =
     (case asNode it of
        None \<Rightarrow> []
      | Some n \<Rightarrow>
          (case asNode (idx (Some n) ''RangeVar'') of
             None \<Rightarrow> []
           | Some rv \<Rightarrow> [jsonRangeVarToTableUsed (Some rv)]) @
          (case asNode (idx (Some n) ''JoinExpr'') of
             None \<Rightarrow> []
           | Some je \<Rightarrow>
               jsonGetTablesFromSelectStmt [idx (Some je) ''larg'', idx (Some je) ''rarg''])) @
     jsonGetTablesFromSelectStmt rest"
  by pat_completeness auto
termination
proof (relation "measure (\<lambda>xs. sum_list (map (\<lambda>x. Suc (size x)) xs))")
  show "wf (measure (\<lambda>xs. sum_list (map (\<lambda>x. Suc (size x)) xs)))" by simp
next
  fix it :: json and rest :: "json list" and n je
  assume a: "asNode it = Some n" "asNode (idx (Some n) ''JoinExpr'') = Some je"
  have it: "it = JObject n" using a(1) by (cases it) (auto simp: asNode_def)
  have "map_of n ''JoinExpr'' = Some (JObject je)"
    using a(2) by (auto simp: asNode_def idx_def lookup_def split: option.splits json.splits)
  then have 1: "Suc (size (JObject je)) < size it" unfolding it by (rule size_map_of)
  have ne: "''larg'' \<noteq> ''rarg''" by simp
  have 2: "size (idx (Some je) ''larg'') + size (idx (Some je) ''rarg'') \<le> size (JObject je)"
  proof (cases "map_of je ''larg''")
    case None
    then show ?thesis
      using size_map_of[of je "''rarg''"]
      by (auto simp: idx_def lookup_def split: option.splits)
  next
    case l: (Some v)
    show ?thesis
    proof (cases "map_of je ''rarg''")
      case None
      then show ?thesis
        using size_map_of[OF l] by (auto simp: idx_def lookup_def l)
    next
      case r: (Some v')
      show ?thesis
        using size_map_of2[OF l r ne] by (simp add: idx_def lookup_def l r)
    qed
  qed
  show "([idx (Some je) ''larg'', idx (Some je) ''rarg''], it # rest)
        \<in> measure (\<lambda>xs. sum_list (map (\<lambda>x. Suc (size x)) xs))"
    using 1 2 by simp
next
  fix it :: json and rest :: "json list"
  show "(rest, it # rest) \<in> measure (\<lambda>xs. sum_list (map (\<lambda>x. Suc (size x)) xs))" by simp
qed


definition jsonGetColumnsFromNodeList :: "jsonNode \<Rightarrow> ColumnUsed list" where
  "jsonGetColumnsFromNodeList n =
     (case asNode (idx n ''ColumnRef'') of
        None \<Rightarrow> []
      | Some cr \<Rightarrow> (case jsonColumnRefToColumnUsed (Some cr) of None \<Rightarrow> [] | Some cu \<Rightarrow> [cu]))"

definition jsonGetColumnsFromSortClause :: "json list \<Rightarrow> ColumnUsed list" where
  "jsonGetColumnsFromSortClause sortList =
     concat (map (\<lambda>it.
       (case asNode (idx (asNode it) ''SortBy'') of
          None \<Rightarrow> []
        | Some sb \<Rightarrow>
            (case asNode (idx (asNode (idx (Some sb) ''node'')) ''ColumnRef'') of
               None \<Rightarrow> []
             | Some cr \<Rightarrow>
                 (case jsonColumnRefToColumnUsed (Some cr) of None \<Rightarrow> [] | Some cu \<Rightarrow> [cu]))))
       sortList)"

definition jsonGetColumnsFromReturningList :: "json list \<Rightarrow> ColumnUsed list" where
  "jsonGetColumnsFromReturningList lst =
     concat (map (\<lambda>it.
       (case asNode (idx (asNode it) ''ResTarget'') of
          None \<Rightarrow> []
        | Some rt \<Rightarrow>
            (case asNode (idx (asNode (idx (Some rt) ''val'')) ''ColumnRef'') of
               None \<Rightarrow> []
             | Some cr \<Rightarrow>
                 (case jsonColumnRefToColumnUsed (Some cr) of None \<Rightarrow> [] | Some cu \<Rightarrow> [cu]))))
       lst)"

subsection \<open>Sequencing\<close>

type_synonym 'a M = "heap \<Rightarrow> 'a res \<times> heap"

definition ok :: "'a \<Rightarrow> 'a M" where
  "ok x h = (Ok x, h)"

definition failWith :: "error \<Rightarrow> 'a M" where
  "failWith e h = (Err e, h)"

definition panic :: "'a M" where
  "panic h = (Panic, h)"

definition outOfFuel :: "'a M" where
  "outOfFuel h = (OutOfFuel, h)"

definition andThen :: "'a M \<Rightarrow> ('a \<Rightarrow> 'b M) \<Rightarrow> 'b M" where
  "andThen m f h =
     (case m h of
        (Ok x, h') \<Rightarrow> f x h'
      | (Err e, h') \<Rightarrow> (Err e, h')
      | (Panic, h') \<Rightarrow> (Panic, h')
      | (OutOfFuel, h') \<Rightarrow> (OutOfFuel, h'))"

definition wrapErr :: "(error \<Rightarrow> error) \<Rightarrow> 'a M \<Rightarrow> 'a M" where
  "wrapErr w m h = (case m h of (Err e, h') \<Rightarrow> (Err (w e), h') | r \<Rightarrow> r)"

definition check :: "(heap \<Rightarrow> unit res) \<Rightarrow> unit M" where
  "check f h = (f h, h)"

fun forEach :: "('x \<Rightarrow> 's \<Rightarrow> 's M) \<Rightarrow> 'x list \<Rightarrow> 's \<Rightarrow> 's M" where
  "forEach body [] s = ok s"
| "forEach body (x # xs) s = andThen (body x s) (forEach body xs)"

definition columnsOf :: "ColumnUsed list \<Rightarrow> (string \<rightharpoonup> Column)" where
  "columnsOf cols =
     foldl (\<lambda>m c. m(cu_Column c \<mapsto> \<lparr>col_Name = cu_Column c, col_Type = ''''\<rparr>)) Map.empty cols"

definition storeInner :: "VetContext \<Rightarrow> string \<Rightarrow> Table \<Rightarrow> unit M" where
  "storeInner ctx name t h =
     (case InnerSchema_Tables ctx of
        None \<Rightarrow> (Panic, h)
      | Some a \<Rightarrow> (Ok (), h(a := (h a)(name \<mapsto> t))))"

definition addCols :: "ColumnUsed list \<Rightarrow> ColumnUsed list \<Rightarrow> ColumnUsed list" where
  "addCols usedCols cols = (if length cols > 0 then usedCols @ cols else usedCols)"

definition addParams :: "QueryParam list \<Rightarrow> QueryParam list \<Rightarrow> QueryParam list" where
  "addParams queryParams ps = (if length ps > 0 then AddQueryParams queryParams ps else queryParams)"

definition registerDerived ::
  "VetContext \<Rightarrow> jsonNode \<Rightarrow> QueryParam list \<Rightarrow> ColumnUsed list \<Rightarrow> ParseResult \<Rightarrow> ParseResult M"
where
  "registerDerived ctx body qp targetCols re =
     (let re1 = re\<lparr>Params := addParams (Params re) qp\<rparr>;
          alias = getStringField (asNode (idx body ''alias'')) ''aliasname''
      in if alias \<noteq> '''' then
           andThen
             (storeInner ctx alias
                \<lparr>tbl_Name = alias, tbl_Columns = columnsOf targetCols, tbl_ReadOnly = True\<rparr>)
             (\<lambda>u. ok (re1\<lparr>Tables := Tables re1 @ [\<lparr>tu_Name = alias, tu_Alias = ''''\<rparr>]\<rparr>))
         else ok re1)"

definition updateTarget ::
  "string \<Rightarrow> ColumnUsed list \<times> QueryParam list \<Rightarrow> json \<Rightarrow> ColumnUsed list \<times> QueryParam list"
where
  "updateTarget tableName st it =
     (case st of (usedCols, queryParams) \<Rightarrow>
       (case asNode (idx (asNode it) ''ResTarget'') of
          None \<Rightarrow> (usedCols, queryParams)
        | Some rt0 \<Rightarrow>
            (let rt = Some rt0;
                 usedCols1 = usedCols @ [\<lparr>cu_Column = getStringField rt ''name'', cu_Table = tableName,
                                           cu_Location = getNumberField rt ''location''\<rparr>]
             in case asNode (idx rt ''val'') of
                  None \<Rightarrow> (usedCols1, queryParams)
                | Some val \<Rightarrow>
                    (let t = fst (nodeType (Some val)) in
                     if t = ''ColumnRef'' then
                       (case jsonColumnRefToColumnUsed (asNode (idx (Some val) ''ColumnRef'')) of
                          Some cu \<Rightarrow> (usedCols1 @ [cu], queryParams)
                        | None \<Rightarrow> (usedCols1, queryParams))
                     else if t = ''ParamRef'' then
                       (usedCols1,
                        AddQueryParam queryParams
                          \<lparr>Number = getNumberField (asNode (idx (Some val) ''ParamRef'')) ''number''\<rparr>)
                     else (usedCols1, queryParams)))))"

definition updateFromItem :: "TableUsed list \<Rightarrow> json \<Rightarrow> TableUsed list" where
  "updateFromItem usedTables it =
     (case asNode it of
        None \<Rightarrow> usedTables
      | Some n \<Rightarrow>
          usedTables @
          (case asNode (idx (Some n) ''RangeVar'') of
             None \<Rightarrow> []
           | Some rv \<Rightarrow> [jsonRangeVarToTableUsed (Some rv)]) @
          (case asNode (idx (Some n) ''JoinExpr'') of
             None \<Rightarrow> []
           | Some je \<Rightarrow>
               jsonGetTablesFromSelectStmt [idx (Some je) ''larg'', idx (Some je) ''rarg'']))"

definition insertTargetCol :: "string \<Rightarrow> ColumnUsed list \<Rightarrow> json \<Rightarrow> ColumnUsed list" where
  "insertTargetCol tableName targetCols it =
     (case asNode (idx (asNode it) ''ResTarget'') of
        None \<Rightarrow> targetCols
      | Some rt \<Rightarrow>
          targetCols @ [\<lparr>cu_Column = getStringField (Some rt) ''name'', cu_Table = tableName,
                         cu_Location = getNumberField (Some rt) ''location''\<rparr>])"

type_synonym stmtFn = "VetContext \<Rightarrow> jsonNode \<Rightarrow> (QueryParam list \<times> ColumnUsed list) M"
type_synonym exprFn = "VetContext \<Rightarrow> jsonNode \<Rightarrow> ParseResult \<Rightarrow> ParseResult M"
type_synonym cteFn = "VetContext \<Rightarrow> jsonNode \<Rightarrow> unit M"

definition jsonParseCTE_step :: "stmtFn \<Rightarrow> cteFn" where
  "jsonParseCTE_step vNode ctx w =
     forEach
       (\<lambda>c u.
          case asNode (idx (asNode c) ''CommonTableExpr'') of
            None \<Rightarrow> ok ()
          | Some cte \<Rightarrow>
              andThen (vNode ctx (asNode (idx (Some cte) ''ctequery'')))
                (\<lambda>(qp, cols).
                   storeInner ctx (getStringField (Some cte) ''ctename'')
                     \<lparr>tbl_Name = getStringField (Some cte) ''ctename'',
                      tbl_Columns = columnsOf cols, tbl_ReadOnly = True\<rparr>))
       (elems (asList (idx w ''ctes''))) ()"

definition jsonParseExpr_step :: "exprFn \<Rightarrow> exprFn \<Rightarrow> stmtFn \<Rightarrow> exprFn" where
  "jsonParseExpr_step pExpr pFrom vSelect ctx n re =
     (if n = None then ok re
      else
        let (kind, body) = nodeType n in
        if kind = ''A_Expr'' then
          andThen (pExpr ctx (asNode (idx body ''lexpr'')) re)
            (\<lambda>re. pExpr ctx (asNode (idx body ''rexpr'')) re)
        else if kind = ''BoolExpr'' then
          (case elems (asList (idx body ''args'')) of
             a0 # as \<Rightarrow> pExpr ctx (asNode a0) re
           | [] \<Rightarrow> ok re)
        else if kind = ''NullTest'' then
          pExpr ctx (asNode (idx body ''arg'')) re
        else if kind = ''ColumnRef'' then
          (case jsonColumnRefToColumnUsed body of
             Some cu \<Rightarrow> ok (re\<lparr>Columns := Columns re @ [cu]\<rparr>)
           | None \<Rightarrow> ok re)
        else if kind = ''ParamRef'' then
          ok (re\<lparr>Params := AddQueryParam (Params re) \<lparr>Number = getNumberField body ''number''\<rparr>\<rparr>)
        else if kind = ''FuncCall'' then
          andThen
            (case elems (asList (idx body ''args'')) of
               a0 # as \<Rightarrow> pExpr ctx (asNode a0) re
             | [] \<Rightarrow> ok re)
          (\<lambda>re. case asNode (idx body ''over'') of
             None \<Rightarrow> ok re
           | Some over \<Rightarrow>
               (let wd = (case asNode (idx (Some over) ''WindowDef'') of
                            Some w \<Rightarrow> Some w | None \<Rightarrow> Some over)
                in andThen
                  (case elems (jList wd [''partition_clause'', ''partitionClause'']) of
                     p0 # ps \<Rightarrow> pExpr ctx (asNode p0) re
                   | [] \<Rightarrow> ok re)
                (\<lambda>re. case elems (jList wd [''order_clause'', ''orderClause'']) of
                     o0 # os \<Rightarrow> pExpr ctx (asNode o0) re
                   | [] \<Rightarrow> ok re)))
        else if kind = ''TypeCast'' then
          pExpr ctx (asNode (idx body ''arg'')) re
        else if kind = ''List'' then
          forEach (\<lambda>it re. pExpr ctx (asNode it) re)
            (elems (asList (idx body ''items''))) re
        else if kind = ''SubLink'' then
          andThen
            (vSelect ctx
               (asNode (idx (asNode (idx body ''subselect'')) ''SelectStmt'')))
            (\<lambda>(qp, cols). ok (re\<lparr>Params := addParams (Params re) qp\<rparr>))
        else if kind = ''CoalesceExpr'' then
          (case elems (asList (idx body ''args'')) of
             a0 # as \<Rightarrow> pExpr ctx (asNode a0) re
           | [] \<Rightarrow> ok re)
        else if kind = ''WindowDef'' then
          andThen
            (case elems (jList body [''partition_clause'', ''partitionClause'']) of
               p0 # ps \<Rightarrow> pExpr ctx (asNode p0) re
             | [] \<Rightarrow> ok re)
          (\<lambda>re. case elems (jList body [''order_clause'', ''orderClause'']) of
               o0 # os \<Rightarrow> pExpr ctx (asNode o0) re
             | [] \<Rightarrow> ok re)
        else if kind = ''SortBy'' then
          pExpr ctx (asNode (idx body ''node'')) re
        else if kind = ''JoinExpr'' then
          pFrom ctx n re
        else if kind = ''RangeVar'' then
          ok (re\<lparr>Tables := Tables re @ [jsonRangeVarToTableUsed body]\<rparr>)
        else if kind = ''RangeSubselect'' then
          pFrom ctx n re
        else ok re)"

definition jsonParseFromClause_step :: "exprFn \<Rightarrow> exprFn \<Rightarrow> stmtFn \<Rightarrow> exprFn" where
  "jsonParseFromClause_step pFrom pExpr vSelect ctx n re =
     (if n = None then ok re
      else
        let (kind, body) = nodeType n in
        if kind = ''RangeVar'' then
          ok (re\<lparr>Tables := Tables re @ [jsonRangeVarToTableUsed body]\<rparr>)
        else if kind = ''JoinExpr'' then
          andThen (pFrom ctx (asNode (idx body ''larg'')) re)
          (\<lambda>re. andThen (pFrom ctx (asNode (idx body ''rarg'')) re)
          (\<lambda>re. case asNode (idx body ''quals'') of
                   Some quals \<Rightarrow> pExpr ctx (Some quals) re
                 | None \<Rightarrow> ok re))
        else if kind = ''RangeSubselect'' then
          (let re = (if PostponedNodes re = None then re\<lparr>PostponedNodes := Some []\<rparr> else re);
               subq = asNode (idx (asNode (idx body ''subquery'')) ''SelectStmt'')
           in if getBoolField body ''lateral'' then
                (let lateralCtx = \<lparr>Schema_Tables = Schema_Tables ctx,
                                   InnerSchema_Tables = InnerSchema_Tables ctx,
                                   UsedTables = Tables re\<rparr>
                 in andThen (vSelect lateralCtx subq)
                      (\<lambda>(qp, targetCols). registerDerived ctx body qp targetCols re))
              else
                andThen (vSelect ctx subq)
                  (\<lambda>(qp, targetCols). registerDerived ctx body qp targetCols re))
        else ok re)"

definition jsonValidateSelect_step :: "cteFn \<Rightarrow> exprFn \<Rightarrow> exprFn \<Rightarrow> stmtFn" where
  "jsonValidateSelect_step pCTE pFrom pExpr ctx sel =
     andThen
       (case jNode sel [''with_clause'', ''withClause'', ''withClause''] of
          Some w \<Rightarrow> pCTE ctx (Some w)
        | None \<Rightarrow> ok ())
     (\<lambda>u. andThen
       (forEach
          (\<lambda>it (usedCols, localTables, localContextTables, queryParams).
             andThen (pFrom ctx (asNode it) newParseResult)
               (\<lambda>re. ok (addCols usedCols (Columns re),
                          localTables @ Tables re,
                          localContextTables @ filter (\<lambda>t. tu_Alias t \<noteq> '''') (Tables re),
                          addParams queryParams (Params re))))
          (elems (jList sel [''from_clause'', ''fromClause'', ''fromClause'']))
          ([], [], UsedTables ctx, []))
     (\<lambda>(usedCols, localTables, localContextTables, queryParams). andThen
       (forEach
          (\<lambda>it (usedCols, queryParams).
             case asNode (idx (asNode it) ''ResTarget'') of
               None \<Rightarrow> ok (usedCols, queryParams)
             | Some target \<Rightarrow>
                 andThen (pExpr ctx (asNode (idx (Some target) ''val'')) newParseResult)
                   (\<lambda>re. ok (addCols usedCols (Columns re), addParams queryParams (Params re))))
          (elems (jList sel [''target_list'', ''targetList'', ''targetList'']))
          (usedCols, queryParams))
     (\<lambda>(usedCols, queryParams). andThen
       (case jNode sel [''where_clause'', ''whereClause'', ''whereClause''] of
          Some wc \<Rightarrow>
            andThen (wrapErr InvalidWhereClause (pExpr ctx (Some wc) newParseResult))
              (\<lambda>re. ok (addCols usedCols (Columns re), addParams queryParams (Params re)))
        | None \<Rightarrow> ok (usedCols, queryParams))
     (\<lambda>(usedCols, queryParams).
       let usedCols = usedCols @
             concat (map (\<lambda>it. jsonGetColumnsFromNodeList (asNode it))
               (elems (jList sel [''group_clause'', ''groupClause'', ''groupClause''])))
       in andThen
       (case jNode sel [''having_clause'', ''havingClause'', ''havingClause''] of
          Some hv \<Rightarrow>
            andThen (pExpr ctx (Some hv) newParseResult)
              (\<lambda>re. ok (addCols usedCols (Columns re), addParams queryParams (Params re)))
        | None \<Rightarrow> ok (usedCols, queryParams))
     (\<lambda>(usedCols, queryParams). andThen
       (case elems (jList sel [''window_clause'', ''windowClause'', ''windowClause'']) of
          w0 # ws \<Rightarrow>
            andThen (pExpr ctx (asNode w0) newParseResult)
              (\<lambda>re. ok (usedCols @ Columns re, AddQueryParams queryParams (Params re)))
        | [] \<Rightarrow> ok (usedCols, queryParams))
     (\<lambda>(usedCols, queryParams).
       let sc = elems (jList sel [''sort_clause'', ''sortClause'', ''sortClause'']);
           usedCols = (if length sc > 0 then usedCols @ jsonGetColumnsFromSortClause sc else usedCols);
           allTables = localTables @ localContextTables
       in andThen (check (validateTableColumns ctx allTables usedCols))
            (\<lambda>u. ok (queryParams, usedCols))))))))"

definition jsonValidateUpdate_step :: "cteFn \<Rightarrow> exprFn \<Rightarrow> stmtFn" where
  "jsonValidateUpdate_step pCTE pExpr ctx up =
     andThen
       (case jNode up [''with_clause'', ''withClause''] of
          Some w \<Rightarrow> pCTE ctx (Some w)
        | None \<Rightarrow> ok ())
     (\<lambda>u.
       let rel = asNode (idx up ''relation'');
           rv = getRelationRangeVar rel;
           tableName = getStringField rv ''relname''
       in andThen (check (validateTable ctx tableName True))
     (\<lambda>u.
       let tableAlias = getStringField (asNode (idx rv ''alias'')) ''aliasname'';
           usedTables = [\<lparr>tu_Name = tableName, tu_Alias = ''''\<rparr>];
           (usedCols, queryParams) =
             foldl (updateTarget tableName) ([], []) (elems (jList up [''target_list'', ''targetList'']));
           usedTables = foldl updateFromItem usedTables (elems (jList up [''from_clause'', ''fromClause'']))
       in andThen
       (case jNode up [''where_clause'', ''whereClause''] of
          Some wc \<Rightarrow>
            andThen (wrapErr InvalidWhereClause (pExpr ctx (Some wc) newParseResult))
              (\<lambda>re. ok (usedCols @ Columns re, AddQueryParams queryParams (Params re)))
        | None \<Rightarrow> ok (usedCols, queryParams))
     (\<lambda>(usedCols, queryParams).
       let ret = elems (jList up [''returning_list'', ''returningList'']);
           usedCols = (if length ret > 0 then usedCols @ jsonGetColumnsFromReturningList ret
                       else usedCols)
       in andThen
       (if length usedCols > 0 then
          check (validateTableColumns ctx
                   (usedTables @ [\<lparr>tu_Name = tableName, tu_Alias = tableAlias\<rparr>]) usedCols)
        else ok ())
     (\<lambda>u. ok (queryParams, usedCols)))))"

definition jsonValidateInsert_step :: "cteFn \<Rightarrow> exprFn \<Rightarrow> exprFn \<Rightarrow> stmtFn \<Rightarrow> stmtFn" where
  "jsonValidateInsert_step pCTE pExpr pFrom vSelect ctx ins =
     andThen
       (case jNode ins [''with_clause'', ''withClause''] of
          Some w \<Rightarrow> pCTE ctx (Some w)
        | None \<Rightarrow> ok ())
     (\<lambda>u.
       let rel = asNode (idx ins ''relation'');
           rv = getRelationRangeVar rel;
           tableName = getStringField rv ''relname''
       in andThen (check (validateTable ctx tableName True))
     (\<lambda>u.
       let usedTables = [\<lparr>tu_Name = tableName, tu_Alias = ''''\<rparr>];
           targetCols = foldl (insertTargetCol tableName) [] (elems (asList (idx ins ''cols'')));
           usedCols = targetCols;
           queryParams = [];
           selNode = jNode ins [''select_stmt'', ''selectStmt''];
           sel = (case asNode (idx selNode ''SelectStmt'') of Some s \<Rightarrow> Some s | None \<Rightarrow> selNode)
       in if sel = None then failWith MissingSelectStmt
          else andThen
       (let vls = (case lookup sel ''values_lists'' of Some v \<Rightarrow> v | None \<Rightarrow> idx sel ''valuesLists'')
        in if vls \<noteq> JNull then
             andThen
               (forEach
                  (\<lambda>lst (usedCols, queryParams).
                     case asNode (idx (asNode lst) ''List'') of
                       None \<Rightarrow> panic
                     | Some l \<Rightarrow>
                         (let items = elems (asList (idx (Some l) ''items'')) in
                          if length items \<noteq> length targetCols then
                            failWith (ColumnCountMismatch (length targetCols) (length items))
                          else
                            forEach
                              (\<lambda>vnode (usedCols, queryParams).
                                 andThen
                                   (wrapErr InvalidValueList
                                      (pExpr ctx (asNode vnode) newParseResult))
                                   (\<lambda>re. ok (addCols usedCols (Columns re),
                                              addParams queryParams (Params re))))
                              items (usedCols, queryParams)))
                  (elems (asList vls)) (usedCols, queryParams))
               (\<lambda>(usedCols, queryParams). ok (usedTables, usedCols, queryParams))
           else
             let fromClause = elems (jList sel [''from_clause'', ''fromClause'']);
                 usedTables = usedTables @ jsonGetTablesFromSelectStmt fromClause
             in andThen
               (forEach
                  (\<lambda>fc (usedCols, queryParams).
                     andThen (pFrom ctx (asNode fc) newParseResult)
                       (\<lambda>re. ok (addCols usedCols (Columns re), addParams queryParams (Params re))))
                  fromClause (usedCols, queryParams))
             (\<lambda>(usedCols, queryParams). andThen
               (case jNode sel [''where_clause'', ''whereClause''] of
                  Some wc \<Rightarrow>
                    andThen (pExpr ctx (Some wc) newParseResult)
                      (\<lambda>re. ok (addCols usedCols (Columns re), addParams queryParams (Params re)))
                | None \<Rightarrow> ok (usedCols, queryParams))
             (\<lambda>(usedCols, queryParams). andThen
               (forEach
                  (\<lambda>it (usedCols, queryParams).
                     case asNode (idx (asNode (idx (asNode it) ''ResTarget'')) ''val'') of
                       None \<Rightarrow> ok (usedCols, queryParams)
                     | Some tv \<Rightarrow>
                         if lookup (Some tv) ''ColumnRef'' \<noteq> None then
                           (case jsonColumnRefToColumnUsed (asNode (idx (Some tv) ''ColumnRef'')) of
                              Some cu \<Rightarrow> ok (usedCols @ [cu], queryParams)
                            | None \<Rightarrow> ok (usedCols, queryParams))
                         else
                           (case asNode (idx (Some tv) ''SubLink'') of
                              Some sl \<Rightarrow>
                                andThen
                                  (wrapErr InvalidSelectInValueList
                                     (vSelect ctx
                                        (asNode (idx (asNode (idx (Some sl) ''subselect'')) ''SelectStmt''))))
                                  (\<lambda>(qp, cols). ok (usedCols, addParams queryParams qp))
                            | None \<Rightarrow> ok (usedCols, queryParams)))
                  (elems (jList sel [''target_list'', ''targetList''])) (usedCols, queryParams))
             (\<lambda>(usedCols, queryParams). ok (usedTables, usedCols, queryParams)))))
     (\<lambda>(usedTables, usedCols, queryParams).
       let ret = elems (jList ins [''returning_list'', ''returningList'']);
           usedCols = (if length ret > 0 then usedCols @ jsonGetColumnsFromReturningList ret
                       else usedCols)
       in andThen (check (validateTableColumns ctx usedTables usedCols))
     (\<lambda>u. ok (queryParams, usedCols)))))"

definition jsonValidateDelete_step :: "cteFn \<Rightarrow> exprFn \<Rightarrow> stmtFn" where
  "jsonValidateDelete_step pCTE pExpr ctx del =
     andThen
       (case jNode del [''with_clause'', ''withClause''] of
          Some w \<Rightarrow> pCTE ctx (Some w)
        | None \<Rightarrow> ok ())
     (\<lambda>u.
       let rel = asNode (idx del ''relation'');
           rv = getRelationRangeVar rel;
           tableName = getStringField rv ''relname''
       in andThen (check (validateTable ctx tableName True))
     (\<lambda>u. andThen
       (case jNode del [''where_clause'', ''whereClause''] of
          Some wc \<Rightarrow>
            andThen (wrapErr InvalidWhereClause (pExpr ctx (Some wc) newParseResult))
              (\<lambda>re. if length (Columns re) > 0
                     then ok (Columns re, if length (Params re) > 0 then Params re else [])
                     else failWith NoColumnsInDeleteWhere)
        | None \<Rightarrow> failWith NoWhereForDelete)
     (\<lambda>(usedCols, queryParams). andThen
       (forEach
          (\<lambda>u usedTables.
             andThen (pExpr ctx (asNode u) newParseResult)
               (\<lambda>re. ok (usedTables @ Tables re)))
          (elems (jList del [''using_clause'', ''usingClause''])) [])
     (\<lambda>usedTables.
       let ret = elems (jList del [''returning_list'', ''returningList'']);
           usedCols = (if length ret > 0 then usedCols @ jsonGetColumnsFromReturningList ret
                       else usedCols)
       in andThen
       (if length usedCols > 0 then
          check (validateTableColumns ctx
                   (usedTables @ [\<lparr>tu_Name = tableName,
                                   tu_Alias = getStringField (asNode (idx rv ''alias'')) ''aliasname''\<rparr>])
                   usedCols)
        else ok ())
     (\<lambda>u. ok (queryParams, usedCols))))))"

definition jsonValidateNode_step :: "stmtFn \<Rightarrow> stmtFn \<Rightarrow> stmtFn \<Rightarrow> stmtFn \<Rightarrow> stmtFn" where
  "jsonValidateNode_step vSelect vUpdate vInsert vDelete ctx n =
     (let (kind, body) = nodeType n in
      if kind = ''SelectStmt'' then vSelect ctx body
      else if kind = ''UpdateStmt'' then vUpdate ctx body
      else if kind = ''InsertStmt'' then vInsert ctx body
      else if kind = ''DeleteStmt'' then vDelete ctx body
      else failWith (UnsupportedStatement kind))"


subsection \<open>The recursion over the tree\<close>

record walker =
  w_Node :: stmtFn
  w_Select :: stmtFn
  w_Update :: stmtFn
  w_Insert :: stmtFn
  w_Delete :: stmtFn
  w_From :: exprFn
  w_Expr :: exprFn
  w_CTE :: cteFn

primrec walk :: "nat \<Rightarrow> walker" where
  "walk 0 =
     \<lparr>w_Node = (\<lambda>ctx n. outOfFuel), w_Select = (\<lambda>ctx n. outOfFuel),
      w_Update = (\<lambda>ctx n. outOfFuel), w_Insert = (\<lambda>ctx n. outOfFuel),
      w_Delete = (\<lambda>ctx n. outOfFuel), w_From = (\<lambda>ctx n re. outOfFuel),
      w_Expr = (\<lambda>ctx n re. outOfFuel), w_CTE = (\<lambda>ctx n. outOfFuel)\<rparr>"
| "walk (Suc fuel) =
     (let w = walk fuel in
      \<lparr>w_Node = jsonValidateNode_step (w_Select w) (w_Update w) (w_Insert w) (w_Delete w),
       w_Select = jsonValidateSelect_step (w_CTE w) (w_From w) (w_Expr w),
       w_Update = jsonValidateUpdate_step (w_CTE w) (w_Expr w),
       w_Insert = jsonValidateInsert_step (w_CTE w) (w_Expr w) (w_From w) (w_Select w),
       w_Delete = jsonValidateDelete_step (w_CTE w) (w_Expr w),
       w_From = jsonParseFromClause_step (w_From w) (w_Expr w) (w_Select w),
       w_Expr = jsonParseExpr_step (w_Expr w) (w_From w) (w_Select w),
       w_CTE = jsonParseCTE_step (w_Node w)\<rparr>)"

definition jsonValidateNode :: "nat \<Rightarrow> stmtFn" where
  "jsonValidateNode fuel = w_Node (walk fuel)"

definition jsonValidateSelect :: "nat \<Rightarrow> stmtFn" where
  "jsonValidateSelect fuel = w_Select (walk fuel)"

definition jsonValidateUpdate :: "nat \<Rightarrow> stmtFn" where
  "jsonValidateUpdate fuel = w_Update (walk fuel)"

definition jsonValidateInsert :: "nat \<Rightarrow> stmtFn" where
  "jsonValidateInsert fuel = w_Insert (walk fuel)"

definition jsonValidateDelete :: "nat \<Rightarrow> stmtFn" where
  "jsonValidateDelete fuel = w_Delete (walk fuel)"

definition jsonParseFromClause :: "nat \<Rightarrow> exprFn" where
  "jsonParseFromClause fuel = w_From (walk fuel)"

definition jsonParseExpr :: "nat \<Rightarrow> exprFn" where
  "jsonParseExpr fuel = w_Expr (walk fuel)"

definition jsonParseCTE :: "nat \<Rightarrow> cteFn" where
  "jsonParseCTE fuel = w_CTE (walk fuel)"

definition jsonValidateQuery :: "nat \<Rightarrow> VetContext \<Rightarrow> jsonNode \<Rightarrow> (QueryParam list \<times> ColumnUsed list) M" where
  "jsonValidateQuery fuel ctx root =
     (case elems (asList (idx root ''stmts'')) of
        [] \<Rightarrow> failWith EmptyStatement
      | [s] \<Rightarrow> jsonValidateNode fuel ctx (asNode (idx (asNode s) ''stmt''))
      | s # s' # rest \<Rightarrow> failWith MoreThanOneStatement)"

definition ValidateSqlQueries :: "nat \<Rightarrow> VetContext \<Rightarrow> jsonNode \<Rightarrow> QueryParam list list M" where
  "ValidateSqlQueries fuel ctx root =
     forEach
       (\<lambda>s out.
          andThen (jsonValidateQuery fuel ctx (Some [(''stmts'', JArray [s])]))
            (\<lambda>(qp, cols). ok (out @ [qp])))
       (elems (asList (idx root ''stmts''))) []"

lemmas walk_defs = jsonValidateNode_def jsonValidateSelect_def jsonValidateUpdate_def
  jsonValidateInsert_def jsonValidateDelete_def jsonParseFromClause_def jsonParseExpr_def
  jsonParseCTE_def

lemma jsonValidateNode_Suc:
  "jsonValidateNode (Suc fuel) =
     jsonValidateNode_step (jsonValidateSelect fuel) (jsonValidateUpdate fuel)
       (jsonValidateInsert fuel) (jsonValidateDelete fuel)"
  by (simp add: walk_defs Let_def)

lemma jsonValidateSelect_Suc:
  "jsonValidateSelect (Suc fuel) =
     jsonValidateSelect_step (jsonParseCTE fuel) (jsonParseFromClause fuel) (jsonParseExpr fuel)"
  by (simp add: walk_defs Let_def)

lemma jsonValidateUpdate_Suc:
  "jsonValidateUpdate (Suc fuel) = jsonValidateUpdate_step (jsonParseCTE fuel) (jsonParseExpr fuel)"
  by (simp add: walk_defs Let_def)

lemma jsonValidateInsert_Suc:
  "jsonValidateInsert (Suc fuel) =
     jsonValidateInsert_step (jsonParseCTE fuel) (jsonParseExpr fuel) (jsonParseFromClause fuel)
       (jsonValidateSelect fuel)"
  by (simp add: walk_defs Let_def)

lemma jsonValidateDelete_Suc:
  "jsonValidateDelete (Suc fuel) = jsonValidateDelete_step (jsonParseCTE fuel) (jsonParseExpr fuel)"
  by (simp add: walk_defs Let_def)

lemma jsonParseFromClause_Suc:
  "jsonParseFromClause (Suc fuel) =
     jsonParseFromClause_step (jsonParseFromClause fuel) (jsonParseExpr fuel) (jsonValidateSelect fuel)"
  by (simp add: walk_defs Let_def)

lemma jsonParseExpr_Suc:
  "jsonParseExpr (Suc fuel) =
     jsonParseExpr_step (jsonParseExpr fuel) (jsonParseFromClause fuel) (jsonValidateSelect fuel)"
  by (simp add: walk_defs Let_def)

lemma jsonParseCTE_Suc:
  "jsonParseCTE (Suc fuel) = jsonParseCTE_step (jsonValidateNode fuel)"
  by (simp add: walk_defs Let_def)

lemmas walk_Suc = jsonValidateNode_Suc jsonValidateSelect_Suc jsonValidateUpdate_Suc
  jsonValidateInsert_Suc jsonValidateDelete_Suc jsonParseFromClause_Suc jsonParseExpr_Suc
  jsonParseCTE_Suc

lemma walk_0:
  "jsonValidateNode 0 ctx n = outOfFuel" "jsonValidateSelect 0 ctx n = outOfFuel"
  "jsonValidateUpdate 0 ctx n = outOfFuel" "jsonValidateInsert 0 ctx n = outOfFuel"
  "jsonValidateDelete 0 ctx n = outOfFuel" "jsonParseFromClause 0 ctx n re = outOfFuel"
  "jsonParseExpr 0 ctx n re = outOfFuel" "jsonParseCTE 0 ctx n = outOfFuel"
  by (simp_all add: walk_defs)

section \<open>The example schema of the specification\<close>






section \<open>Statement kinds\<close>





section \<open>A context without a schema\<close>

text \<open>
  C10. When the table map of the outer schema is nil, \<^verbatim>\<open>validateTable\<close> and
  \<^verbatim>\<open>validateTableColumns\<close> return nil for every table name, flag, table list, column list
  and store: the checks of table existence, of writability and of columns are skipped.
\<close>

theorem nil_schema_skips_checks:
  "Schema_Tables ctx = None \<Longrightarrow>
     validateTable ctx tname notReadOnly h = Ok () \<and> validateTableColumns ctx tbls cols h = Ok ()"
  by (simp add: validateTable_def validateTableColumns_def)

theorem nil_schema_skips_checks_witness:
  "validateTable \<lparr>Schema_Tables = None, InnerSchema_Tables = Some 1, UsedTables = []\<rparr>
     ''nosuch'' True (\<lambda>a. Map.empty) = Ok () \<and>
   validateTableColumns \<lparr>Schema_Tables = None, InnerSchema_Tables = Some 1, UsedTables = []\<rparr>
     [\<lparr>tu_Name = ''nosuch'', tu_Alias = []\<rparr>]
     [\<lparr>cu_Column = ''zzz'', cu_Table = ''nosuch'', cu_Location = 0\<rparr>] (\<lambda>a. Map.empty) = Ok ()"
proof -
  have "Schema_Tables \<lparr>Schema_Tables = None, InnerSchema_Tables = Some 1, UsedTables = []\<rparr> = None"
    by simp
  then show ?thesis by (rule nil_schema_skips_checks)
qed

end
